theory Spec2Isabelle
  imports Main "HOL-Library.Word" "HOL-Library.Sublist"
begin

section \<open>Data model\<close>

text \<open>
  A byte is a \<open>char\<close> (HOL characters are 8-bit), a byte slice is a list of them.
  Go's \<open>int64\<close> is a 64-bit word read as two's complement: \<open>+\<close> and \<open>-\<close> wrap,
  \<open><s\<close> is the signed comparison and \<open>sint\<close> the signed value.
\<close>

type_synonym bytes = "char list"
type_synonym int64 = "64 word"

text \<open>
  Errors are values. \<open>ErrExternal\<close> stands for an error produced by a collaborator
  (the transport, URL parsing, the media type parser, the archive reader); the other
  constructors are the errors this program builds with \<open>fmt.Errorf\<close>, keeping the
  data their message is formatted from, and the two sentinels of package \<open>io\<close>.
\<close>

datatype error =
    ErrExternal string
  | EOF
  | ErrUnexpectedEOF
  | ErrInvalidMediaType string error
  | ErrMultipartNotSupported
  | ErrUnexpectedStatusCode string
  | ErrMakeRequest error
  | ErrRequest error
  | ErrRegistryCode int

text \<open>\<open>v1.Hash\<close>: the algorithm and the hex digest.\<close>

record Hash =
  Algorithm :: string
  Hex :: string

text \<open>
  \<open>http.Header\<close> is a map from a key to the list of its values. The keys used by this
  program (\<open>Range\<close>, \<open>Accept-Encoding\<close>, \<open>Content-Type\<close>, \<open>Location\<close>) are already in
  canonical form, so canonicalisation is the identity on them.
\<close>

type_synonym Header = "string \<rightharpoonup> string list"

definition Header_Add :: "Header \<Rightarrow> string \<Rightarrow> string \<Rightarrow> Header" where
  "Header_Add h key v = h(key \<mapsto> (case h key of None \<Rightarrow> [] | Some vs \<Rightarrow> vs) @ [v])"

definition Header_Set :: "Header \<Rightarrow> string \<Rightarrow> string \<Rightarrow> Header" where
  "Header_Set h key v = h(key \<mapsto> [v])"

definition Header_Get :: "Header \<Rightarrow> string \<Rightarrow> string" where
  "Header_Get h key = (case h key of None \<Rightarrow> [] | Some [] \<Rightarrow> [] | Some (v # _) \<Rightarrow> v)"

record Request =
  Method :: string
  URL :: string
  ReqHeader :: Header
  Close :: bool

text \<open>
  A response body is a stream: the bytes it delivers, then either a clean end of
  stream (\<open>Fault = None\<close>) or the error that cut it short.
\<close>

record Body =
  Data :: bytes
  Fault :: "error option"

record Response =
  StatusCode :: int
  Status :: string
  RespHeader :: Header
  RespBody :: Body

text \<open>
  An \<open>http.RoundTripper\<close> answers a request with a response or an error. Every
  operation below returns, beside its result, the list of requests it handed to the
  transport, in order.
\<close>

type_synonym RoundTripper = "Request \<Rightarrow> error + Response"

text \<open>
  Library functions the code calls, taken as parameters:
  \<^item> \<open>url_Parse\<close>: the error of parsing a URL string, which is the only way
    \<open>http.NewRequestWithContext\<close> fails for method GET and a non-nil context;
  \<^item> \<open>mime_ParseMediaType\<close>: the media type and the error of \<open>mime.ParseMediaType\<close>;
  \<^item> \<open>Client_Do\<close>: \<open>(&http.Client{Transport: rt}).Do\<close>, the client built over a
    transport.
\<close>

record Lib =
  url_Parse :: "string \<Rightarrow> error option"
  mime_ParseMediaType :: "string \<Rightarrow> string \<times> error option"
  Client_Do :: "RoundTripper \<Rightarrow> RoundTripper"

record Layer =
  digest :: Hash
  url :: string
  blobURL :: string
  size64 :: int64
  rt :: RoundTripper

definition Digest :: "Layer \<Rightarrow> Hash" where
  "Digest l = digest l"

definition Size :: "Layer \<Rightarrow> int64" where
  "Size l = size64 l"

section \<open>Formatting and arithmetic of the Go runtime\<close>

text \<open>\<open>%d\<close> of an integer: decimal digits, with a leading minus sign when negative.\<close>

definition digit_char :: "nat \<Rightarrow> char" where
  "digit_char d = ''0123456789'' ! d"

function digits :: "nat \<Rightarrow> string" where
  "digits n = (if n < 10 then [digit_char n] else digits (n div 10) @ [digit_char (n mod 10)])"
  by pat_completeness auto
termination
  by (relation "measure (\<lambda>n. n)") auto

declare digits.simps [simp del]

definition FormatInt :: "int \<Rightarrow> string" where
  "FormatInt i = (if i < 0 then CHR ''-'' # digits (nat (- i)) else digits (nat i))"

text \<open>Go's integer division truncates towards zero.\<close>

definition quo :: "int \<Rightarrow> int \<Rightarrow> int" where
  "quo a b = sgn a * sgn b * (\<bar>a\<bar> div \<bar>b\<bar>)"

section \<open>Range reader\<close>

text \<open>
  \<open>http.NewRequestWithContext(ctx, method, url, nil)\<close>: fails when the URL does not
  parse, otherwise a request with an empty header.
\<close>

definition NewRequest :: "Lib \<Rightarrow> string \<Rightarrow> string \<Rightarrow> error + Request" where
  "NewRequest lib method u =
     (case url_Parse lib u of
        Some err \<Rightarrow> Inl err
      | None \<Rightarrow> Inr \<lparr>Method = method, URL = u, ReqHeader = Map.empty, Close = False\<rparr>)"

definition range_value :: "int64 \<Rightarrow> int64 \<Rightarrow> string" where
  "range_value begin end = ''bytes='' @ FormatInt (sint begin) @ ''-'' @ FormatInt (sint end)"

definition fetch :: "Lib \<Rightarrow> Layer \<Rightarrow> int64 \<Rightarrow> int64 \<Rightarrow> (error + Body) \<times> Request list" where
  "fetch lib l begin end =
     (case NewRequest lib ''GET'' (url l) of
        Inl err \<Rightarrow> (Inl err, [])
      | Inr req0 \<Rightarrow>
          let req = req0\<lparr>ReqHeader :=
                      Header_Add (Header_Add (ReqHeader req0) ''Range'' (range_value begin end))
                        ''Accept-Encoding'' ''identity'',
                    Close := False\<rparr>
          in (case Client_Do lib (rt l) req of
                Inl err \<Rightarrow> (Inl err, [req])
              | Inr res \<Rightarrow>
                  (if StatusCode res = 200 then Inr (RespBody res)
                   else if StatusCode res = 206 then
                     (case mime_ParseMediaType lib (Header_Get (RespHeader res) ''Content-Type'') of
                        (mediaType, Some err) \<Rightarrow> Inl (ErrInvalidMediaType mediaType err)
                      | (mediaType, None) \<Rightarrow>
                          if prefix ''multipart/'' mediaType then Inl ErrMultipartNotSupported
                          else Inr (RespBody res))
                   else Inl (ErrUnexpectedStatusCode (Status res)),
                   [req])))"

text \<open>
  \<open>io.ReadFull(rc, p)\<close>: fills \<open>p\<close> from the stream. It returns the number of bytes
  copied and no error when \<open>p\<close> was filled; otherwise the error that ended the stream,
  with \<open>io.EOF\<close> turned into \<open>io.ErrUnexpectedEOF\<close> when some bytes were read.
\<close>

record ReadResult =
  count :: nat
  failure :: "error option"
  buffer :: bytes

definition ReadFull :: "Body \<Rightarrow> bytes \<Rightarrow> ReadResult" where
  "ReadFull rc p =
     (let got = take (length p) (Data rc);
          k = length got;
          e = (case Fault rc of None \<Rightarrow> EOF | Some x \<Rightarrow> x)
      in \<lparr>count = k,
          failure = (if length p \<le> k then None
                 else if 0 < k \<and> e = EOF then Some ErrUnexpectedEOF
                 else Some e),
          buffer = got @ drop k p\<rparr>)"

definition ReadAt :: "Lib \<Rightarrow> Layer \<Rightarrow> bytes \<Rightarrow> int64 \<Rightarrow> ReadResult \<times> Request list" where
  "ReadAt lib l p offset =
     (if length p = 0 \<or> size64 l <s offset then (\<lparr>count = 0, failure = None, buffer = p\<rparr>, [])
      else
        (case fetch lib l offset (offset + of_nat (length p) - 1) of
           (Inl e, reqs) \<Rightarrow> (\<lparr>count = 0, failure = Some e, buffer = p\<rparr>, reqs)
         | (Inr rc, reqs) \<Rightarrow> (ReadFull rc p, reqs)))"

section \<open>Redirect resolver\<close>

text \<open>
  The probe's context and its timeout only decide whether the transport answers or
  fails, which is the transport's result here.
\<close>

definition redirect :: "Lib \<Rightarrow> string \<Rightarrow> RoundTripper \<Rightarrow> (error + string) \<times> Request list" where
  "redirect lib canonical tr =
     (case NewRequest lib ''GET'' canonical of
        Inl err \<Rightarrow> (Inl (ErrMakeRequest err), [])
      | Inr req0 \<Rightarrow>
          let req = req0\<lparr>Close := False,
                         ReqHeader := Header_Set (ReqHeader req0) ''Range'' ''bytes=0-1''\<rparr>
          in (case tr req of
                Inl err \<Rightarrow> (Inl (ErrRequest err), [req])
              | Inr res \<Rightarrow>
                  (if quo (StatusCode res) 100 = 2 then Inr canonical
                   else
                     (let redir = Header_Get (RespHeader res) ''Location''
                      in if redir \<noteq> [] \<and> quo (StatusCode res) 100 = 3 then Inr redir
                         else Inl (ErrRegistryCode (StatusCode res))),
                   [req])))"

section \<open>Layer enumerator\<close>

text \<open>
  What the registry client library hands over: a parsed reference (of which the code
  reads the scheme, the registry and the repository of its context), an image whose
  \<open>Layers()\<close> answers a list of layers or an error, and for each layer the results of
  its \<open>Size()\<close> and \<open>Digest()\<close>.
\<close>

record Repository =
  Scheme :: string
  RegistryStr :: string
  RepositoryStr :: string

record Reference =
  Context :: Repository

record v1_Layer =
  v1_Size :: "error + int64"
  v1_Digest :: "error + Hash"

record Image =
  image_Layers :: "error + v1_Layer list"

record Remote =
  ref :: Reference
  Remote_rt :: RoundTripper
  image :: Image

text \<open>
  The registry client, taken as a parameter: \<open>name.ParseReference\<close>, the keychain's
  \<open>Resolve\<close>, \<open>transport.New\<close> over the default transport with the pull scope of the
  reference, and \<open>remote.Image\<close> with that transport.
\<close>

record 'a Registry =
  ParseReference :: "string \<Rightarrow> error + Reference"
  Resolve :: "Repository \<Rightarrow> error + 'a"
  transport_New :: "Repository \<Rightarrow> 'a \<Rightarrow> error + RoundTripper"
  remote_Image :: "Reference \<Rightarrow> RoundTripper \<Rightarrow> error + Image"

definition New :: "'a Registry \<Rightarrow> string \<Rightarrow> error + Remote" where
  "New reg s =
     (case ParseReference reg s of
        Inl e \<Rightarrow> Inl e
      | Inr rf \<Rightarrow>
          (case Resolve reg (Context rf) of
             Inl e \<Rightarrow> Inl e
           | Inr auth \<Rightarrow>
               (case transport_New reg (Context rf) auth of
                  Inl e \<Rightarrow> Inl e
                | Inr t \<Rightarrow>
                    (case remote_Image reg rf t of
                       Inl e \<Rightarrow> Inl e
                     | Inr img \<Rightarrow> Inr \<lparr>ref = rf, Remote_rt = t, image = img\<rparr>))))"

text \<open>
  The blob URL. \<open>path.Join\<close> and \<open>url.URL.String\<close> are library functions, taken as
  parameters; \<open>Hash.String\<close> is the algorithm, a colon and the hex digest.
\<close>

record url_URL =
  URL_Scheme :: string
  URL_Host :: string
  URL_Path :: string

record PathLib =
  path_Join :: "string list \<Rightarrow> string"
  URL_String :: "url_URL \<Rightarrow> string"

definition Hash_String :: "Hash \<Rightarrow> string" where
  "Hash_String h = Algorithm h @ '':'' @ Hex h"

definition blob_URL :: "PathLib \<Rightarrow> Remote \<Rightarrow> Hash \<Rightarrow> string" where
  "blob_URL pl r d =
     (let repoURL = \<lparr>URL_Scheme = Scheme (Context (ref r)),
                     URL_Host = RegistryStr (Context (ref r)),
                     URL_Path = ''/v2/'' @ RepositoryStr (Context (ref r)) @ ''/''\<rparr>;
          blob = repoURL\<lparr>URL_Path := path_Join pl [URL_Path repoURL, ''blobs'', Hash_String d]\<rparr>
      in URL_String pl blob)"

text \<open>
  The loop of \<open>Layers\<close> over the image's layers, with the list built so far. Go
  returns the pair of a slice and an error: on every error the slice is \<open>nil\<close>, here
  the empty list.
\<close>

fun Layers_loop ::
  "Lib \<Rightarrow> PathLib \<Rightarrow> Remote \<Rightarrow> v1_Layer list \<Rightarrow> Layer list
     \<Rightarrow> (Layer list \<times> error option) \<times> Request list" where
  "Layers_loop lib pl r [] eLayers = ((eLayers, None), [])"
| "Layers_loop lib pl r (layer # rest) eLayers =
     (case v1_Size layer of
        Inl e \<Rightarrow> (([], Some e), [])
      | Inr sz \<Rightarrow>
          (case v1_Digest layer of
             Inl e \<Rightarrow> (([], Some e), [])
           | Inr d \<Rightarrow>
               (case redirect lib (blob_URL pl r d) (Remote_rt r) of
                  (Inl e, reqs) \<Rightarrow> (([], Some e), reqs)
                | (Inr redirectedURL, reqs) \<Rightarrow>
                    (case Layers_loop lib pl r rest
                            (eLayers @ [\<lparr>digest = d, url = redirectedURL,
                                         blobURL = blob_URL pl r d, size64 = sz,
                                         rt = Remote_rt r\<rparr>]) of
                       (res, reqs') \<Rightarrow> (res, reqs @ reqs')))))"

definition Layers ::
  "Lib \<Rightarrow> PathLib \<Rightarrow> Remote \<Rightarrow> (Layer list \<times> error option) \<times> Request list" where
  "Layers lib pl r =
     (case image_Layers (image r) of
        Inl e \<Rightarrow> (([], Some e), [])
      | Inr layers \<Rightarrow> Layers_loop lib pl r layers [])"

section \<open>Multi-layer lookup\<close>

text \<open>
  The archive reader, taken as a parameter: \<open>estargz.Open\<close> on the section reader
  over a layer (from 0 to the layer's size), \<open>Lookup\<close> of a path (the name of the entry
  found, if any), \<open>OpenFile\<close> of a name, and \<open>io.ReadAll\<close> of the file reader.
\<close>

record ('z, 'f) Estargz =
  Open :: "Layer \<Rightarrow> int64 \<Rightarrow> int64 \<Rightarrow> error + 'z"
  Lookup :: "'z \<Rightarrow> string \<Rightarrow> string option"
  OpenFile :: "'z \<Rightarrow> string \<Rightarrow> error + 'f"
  ReadAll :: "'f \<Rightarrow> error + bytes"

text \<open>
  The body of one goroutine, up to the store: an error, nothing found, or the payload
  to store.
\<close>

definition worker :: "('z, 'f) Estargz \<Rightarrow> string \<Rightarrow> Layer \<Rightarrow> error + bytes option" where
  "worker est filePath l =
     (case Open est l 0 (Size l) of
        Inl e \<Rightarrow> Inl e
      | Inr esgz \<Rightarrow>
          (case Lookup est esgz filePath of
             None \<Rightarrow> Inr None
           | Some name \<Rightarrow>
               (case OpenFile est esgz name of
                  Inl e \<Rightarrow> Inl e
                | Inr sr \<Rightarrow>
                    (case ReadAll est sr of
                       Inl e \<Rightarrow> Inl e
                     | Inr b \<Rightarrow> Inr (Some b)))))"

text \<open>
  The goroutines of the error group, in the order in which they finish. An event
  \<open>(i, j)\<close> is the goroutine started for \<open>layers[i]\<close> finishing; \<open>j\<close> is the index the
  loop variable \<open>layer\<close> holds when the goroutine evaluates \<open>layer.Digest()\<close> for the
  store (\<open>j = i\<close> when every iteration has its own variable). No goroutine looks at the
  group's context, so each one runs to its end. The group keeps the first error
  returned; the store replaces the value under its key.
\<close>

fun run_workers ::
  "('z, 'f) Estargz \<Rightarrow> string \<Rightarrow> Layer list \<Rightarrow> (nat \<times> nat) list
     \<Rightarrow> (Hash \<rightharpoonup> bytes) \<times> error option \<Rightarrow> (Hash \<rightharpoonup> bytes) \<times> error option" where
  "run_workers est filePath layers [] st = st"
| "run_workers est filePath layers ((i, j) # sched) (result, gerr) =
     (case worker est filePath (layers ! i) of
        Inl e \<Rightarrow>
          run_workers est filePath layers sched
            (result, (case gerr of None \<Rightarrow> Some e | Some e0 \<Rightarrow> Some e0))
      | Inr None \<Rightarrow> run_workers est filePath layers sched (result, gerr)
      | Inr (Some b) \<Rightarrow>
          run_workers est filePath layers sched (result(Digest (layers ! j) \<mapsto> b), gerr))"

text \<open>
  A schedule is one in which every goroutine finishes exactly once and reads the loop
  variable at its own or a later iteration.
\<close>

definition schedule_ok :: "Layer list \<Rightarrow> (nat \<times> nat) list \<Rightarrow> bool" where
  "schedule_ok layers sched \<longleftrightarrow>
     distinct (map fst sched) \<and> set (map fst sched) = {0..<length layers} \<and>
     (\<forall>(i, j) \<in> set sched. i \<le> j \<and> j < length layers)"

text \<open>\<open>fmt.Println(string(v))\<close> writes the bytes and a newline to standard output.\<close>

definition Println :: "bytes \<Rightarrow> string" where
  "Println v = v @ [CHR 0x0A]"

text \<open>
  The final loop, \<open>for i := len(layers) - 1; i >= 0; i--\<close>, with the writes to standard
  output so far.
\<close>

function print_loop :: "Layer list \<Rightarrow> (Hash \<rightharpoonup> bytes) \<Rightarrow> int \<Rightarrow> string list \<Rightarrow> string list" where
  "print_loop layers result i out =
     (if i \<ge> 0 then
        (case result (Digest (layers ! nat i)) of
           None \<Rightarrow> print_loop layers result (i - 1) out
         | Some v \<Rightarrow> print_loop layers result (i - 1) (out @ [Println v]))
      else out)"
  by pat_completeness auto
termination
  by (relation "measure (\<lambda>(layers, result, i, out). nat (i + 1))") auto

declare print_loop.simps [simp del]

text \<open>
  \<open>run\<close>, from the command line (with the program name first) and the order in which
  the goroutines finish, to the writes on standard output and the error returned.
\<close>

definition run ::
  "'a Registry \<Rightarrow> Lib \<Rightarrow> PathLib \<Rightarrow> ('z, 'f) Estargz \<Rightarrow> string list \<Rightarrow> (nat \<times> nat) list
     \<Rightarrow> string list \<times> error option" where
  "run reg lib pl est args sched =
     (if length args \<noteq> 3 then ([Println ''Usage: ecrane IMAGE_NAME FILE_PATH''], None)
      else
        let imageName = args ! 1; filePath = args ! 2
        in (case New reg imageName of
              Inl e \<Rightarrow> ([], Some e)
            | Inr r \<Rightarrow>
                (case fst (Layers lib pl r) of
                   (layers, Some e) \<Rightarrow> ([], Some e)
                 | (layers, None) \<Rightarrow>
                     (case run_workers est filePath layers sched (Map.empty, None) of
                        (result, Some e) \<Rightarrow> ([], Some e)
                      | (result, None) \<Rightarrow>
                          (print_loop layers result (int (length layers) - 1) [], None)))))"

section \<open>A simulated registry\<close>

text \<open>
  Concrete collaborators on which the model is run: a library in which every URL
  parses, the media type is the text before the first semicolon (the empty string is
  rejected, as \<open>mime.ParseMediaType\<close> does with "mime: no media type", and so is a
  parameter without \<open>=\<close>, for which it returns the media type together with
  "mime: invalid media parameter"), and the client hands the request to the transport; a transport that answers from a table keyed by
  the URL and the \<open>Range\<close> header of the request.
\<close>

definition example_lib :: Lib where
  "example_lib =
     \<lparr>url_Parse = (\<lambda>u. None),
      mime_ParseMediaType =
        (\<lambda>v. let base = takeWhile (\<lambda>c. c \<noteq> CHR '';'') v;
                  params = dropWhile (\<lambda>c. c \<noteq> CHR '';'') v
              in if base = [] then ([], Some (ErrExternal ''mime: no media type''))
                 else if params \<noteq> [] \<and> CHR ''='' \<notin> set params
                 then (base, Some (ErrExternal ''mime: invalid media parameter''))
                 else (base, None)),
      Client_Do = (\<lambda>tr. tr)\<rparr>"

definition table_server :: "((string \<times> string) \<times> Response) list \<Rightarrow> RoundTripper" where
  "table_server tab req =
     (case map_of tab (URL req, Header_Get (ReqHeader req) ''Range'') of
        Some res \<Rightarrow> Inr res
      | None \<Rightarrow> Inl (ErrExternal ''connection refused''))"

definition reply :: "int \<Rightarrow> string \<Rightarrow> (string \<times> string) list \<Rightarrow> bytes \<Rightarrow> Response" where
  "reply code st hdr body =
     \<lparr>StatusCode = code, Status = st,
      RespHeader = map_of (map (\<lambda>(k, v). (k, [v])) hdr),
      RespBody = \<lparr>Data = body, Fault = None\<rparr>\<rparr>"

text \<open>
  A blob of ten bytes, \<open>0123456789\<close>, behind a server that answers the ranges asked
  for below as a range-aware server does: the bytes of the range that exist, with
  status 206, and status 416 for a range that starts at the end of the blob.
\<close>

definition example_server :: RoundTripper where
  "example_server =
     table_server
       [((''https://cdn.example/aa'', ''bytes=2-5''),
           reply 206 ''206 Partial Content''
             [(''Content-Type'', ''application/octet-stream'')] ''2345''),
        ((''https://cdn.example/aa'', ''bytes=8-11''),
           reply 206 ''206 Partial Content''
             [(''Content-Type'', ''application/octet-stream'')] ''89''),
        ((''https://cdn.example/aa'', ''bytes=10-13''),
           reply 416 ''416 Requested Range Not Satisfiable'' [] []),
        ((''https://cdn.example/aa'', ''bytes=-3-0''),
           reply 416 ''416 Requested Range Not Satisfiable'' [] []),
        ((''https://cdn.example/mp'', ''bytes=0-3''),
           reply 206 ''206 Partial Content''
             [(''Content-Type'', ''multipart/byteranges; boundary=x'')] ''--x''),
        ((''https://cdn.example/mq'', ''bytes=0-3''),
           reply 206 ''206 Partial Content''
             [(''Content-Type'', ''multipart/byteranges; boundary'')] ''--x''),
        ((''https://cdn.example/nt'', ''bytes=0-3''),
           reply 206 ''206 Partial Content'' [] ''0123''),
        ((''https://registry.example/v2/app/blobs/sha256:aa'', ''bytes=0-1''),
           reply 307 ''307 Temporary Redirect'' [(''Location'', ''https://cdn.example/aa'')] []),
        ((''https://registry.example/v2/app/blobs/sha256:bb'', ''bytes=0-1''),
           reply 206 ''206 Partial Content'' [] ''01''),
        ((''https://registry.example/v2/app/blobs/sha256:cc'', ''bytes=0-1''),
           reply 404 ''404 Not Found'' [] []),
        ((''https://registry.example/v2/app/blobs/sha256:dd'', ''bytes=0-1''),
           reply 302 ''302 Found'' [] [])]"

definition example_layer :: "string \<Rightarrow> Layer" where
  "example_layer name =
     \<lparr>digest = \<lparr>Algorithm = ''sha256'', Hex = name\<rparr>,
      url = ''https://cdn.example/'' @ name,
      blobURL = ''https://registry.example/v2/app/blobs/sha256:'' @ name,
      size64 = 10,
      rt = example_server\<rparr>"

text \<open>
  An image in repository \<open>app\<close> of \<open>registry.example\<close>, given by the names of its
  layers (bottom first), each of ten bytes; a path library that joins the three
  elements of the blob path and writes a URL as scheme, host and path.
\<close>

definition example_pathlib :: PathLib where
  "example_pathlib =
     \<lparr>path_Join = (\<lambda>parts. case parts of [a, b, c] \<Rightarrow> a @ b @ ''/'' @ c | _ \<Rightarrow> concat parts),
      URL_String = (\<lambda>u. URL_Scheme u @ ''://'' @ URL_Host u @ URL_Path u)\<rparr>"

definition example_remote :: "string list \<Rightarrow> Remote" where
  "example_remote names =
     \<lparr>ref = \<lparr>Context = \<lparr>Scheme = ''https'', RegistryStr = ''registry.example'',
                          RepositoryStr = ''app''\<rparr>\<rparr>,
      Remote_rt = example_server,
      image = \<lparr>image_Layers =
                 Inr (map (\<lambda>name. \<lparr>v1_Size = Inr 10,
                                     v1_Digest = Inr \<lparr>Algorithm = ''sha256'', Hex = name\<rparr>\<rparr>)
                        names)\<rparr>\<rparr>"

text \<open>
  A registry client that resolves every non-empty reference to that image, and an
  archive reader given by the payload of \<open>etc/motd\<close> in each layer that has the file
  and by the layers whose archive does not open.
\<close>

definition example_registry :: "string list \<Rightarrow> unit Registry" where
  "example_registry names =
     \<lparr>ParseReference =
        (\<lambda>s. if s = [] then Inl (ErrExternal ''could not parse reference'')
              else Inr \<lparr>Context = \<lparr>Scheme = ''https'', RegistryStr = ''registry.example'',
                                    RepositoryStr = s\<rparr>\<rparr>),
      Resolve = (\<lambda>repo. Inr ()),
      transport_New = (\<lambda>repo auth. Inr example_server),
      remote_Image = (\<lambda>rf t. Inr (image (example_remote names)))\<rparr>"

definition example_estargz :: "(string \<times> bytes) list \<Rightarrow> string list \<Rightarrow> (Hash, bytes) Estargz" where
  "example_estargz files broken =
     \<lparr>Open =
        (\<lambda>l base limit.
           if Hex (Digest l) \<in> set broken then Inl (ErrExternal (''cannot open '' @ Hex (Digest l)))
           else Inr (Digest l)),
      Lookup =
        (\<lambda>z path. if path = ''etc/motd'' \<and> map_of files (Hex z) \<noteq> None then Some path else None),
      OpenFile =
        (\<lambda>z name. case map_of files (Hex z) of
                      Some b \<Rightarrow> Inr b
                    | None \<Rightarrow> Inl (ErrExternal ''no such file'')),
      ReadAll = (\<lambda>f. Inr f)\<rparr>"

section \<open>Facts about the Go runtime model\<close>

text \<open>Truncating division by 100 picks out the class of a status code.\<close>

lemma quo_100_eq_2: "quo s 100 = 2 \<longleftrightarrow> 200 \<le> s \<and> s \<le> 299"
  unfolding quo_def by (cases "s < 0"; simp add: sgn_if; presburger?)

lemma quo_100_eq_3: "quo s 100 = 3 \<longleftrightarrow> 300 \<le> s \<and> s \<le> 399"
  unfolding quo_def by (cases "s < 0"; simp add: sgn_if; presburger?)

text \<open>
  In \<open>int64\<close>, the end of a range does not wrap as long as it stays below \<open>2^63\<close>.
\<close>

lemma sint_range_end:
  fixes offset :: int64
  assumes "sint offset + int k - 1 < 2 ^ 63" "0 < k"
  shows "sint (offset + of_nat k - 1) = sint offset + int k - 1"
proof -
  have lo: "- (2 ^ 63) \<le> sint offset" using sint_ge [of offset] by simp
  have eq: "offset + of_nat k - 1 = (word_of_int (sint offset + int k - 1) :: int64)"
    by simp
  have "sint (word_of_int (sint offset + int k - 1) :: int64) =
        signed_take_bit 63 (sint offset + int k - 1)"
    by (simp only: sint_sbintrunc') simp
  also have "\<dots> = sint offset + int k - 1"
    using assms lo by (intro signed_take_bit_int_eq_self) auto
  finally have "sint (word_of_int (sint offset + int k - 1) :: int64) =
                sint offset + int k - 1" .
  then show ?thesis by (simp only: eq)
qed

section \<open>The request and the result of a range read\<close>

text \<open>
  A range read that sent a request built it from a URL that parses, and the request
  is the GET with the two headers; its result is decided by the response alone.
\<close>

lemma fetch_sent:
  assumes "snd (fetch lib l b e) = [req]"
  shows "url_Parse lib (url l) = None"
    and "req = \<lparr>Method = ''GET'', URL = url l,
                 ReqHeader = [''Range'' \<mapsto> [range_value b e], ''Accept-Encoding'' \<mapsto> [''identity'']],
                 Close = False\<rparr>"
  using assms
  by (auto simp: fetch_def NewRequest_def Header_Add_def Let_def
           split: option.splits sum.splits)

lemma fetch_result:
  assumes "snd (fetch lib l b e) = [req]" and "Client_Do lib (rt l) req = Inr res"
  shows "fst (fetch lib l b e) =
     (if StatusCode res = 200 then Inr (RespBody res)
      else if StatusCode res = 206 then
        (case mime_ParseMediaType lib (Header_Get (RespHeader res) ''Content-Type'') of
           (mediaType, Some err) \<Rightarrow> Inl (ErrInvalidMediaType mediaType err)
         | (mediaType, None) \<Rightarrow>
             if prefix ''multipart/'' mediaType then Inl ErrMultipartNotSupported
             else Inr (RespBody res))
      else Inl (ErrUnexpectedStatusCode (Status res)))"
proof -
  note s = fetch_sent [OF assms(1)]
  from s(1) have "NewRequest lib ''GET'' (url l) =
      Inr \<lparr>Method = ''GET'', URL = url l, ReqHeader = Map.empty, Close = False\<rparr>"
    by (simp add: NewRequest_def)
  then show ?thesis
    using assms(2) s(2) by (simp add: fetch_def Header_Add_def)
qed

text \<open>
  The guard of \<open>ReadAt\<close>: an empty buffer or an offset greater than the size is a
  no-op that sends nothing; any other call sends exactly the request of \<open>fetch\<close> for
  the range from the offset to the offset plus the length of the buffer minus one.
\<close>

lemma ReadAt_noop:
  assumes "p = [] \<or> size64 l <s offset"
  shows "ReadAt lib l p offset = (\<lparr>count = 0, failure = None, buffer = p\<rparr>, [])"
  using assms by (auto simp: ReadAt_def)

lemma ReadAt_proceeds:
  assumes "p \<noteq> []" and "\<not> size64 l <s offset"
  shows "ReadAt lib l p offset =
     (case fetch lib l offset (offset + of_nat (length p) - 1) of
        (Inl e, reqs) \<Rightarrow> (\<lparr>count = 0, failure = Some e, buffer = p\<rparr>, reqs)
      | (Inr rc, reqs) \<Rightarrow> (ReadFull rc p, reqs))"
  using assms by (simp add: ReadAt_def)

lemma snd_ReadAt_proceeds:
  assumes "p \<noteq> []" and "\<not> size64 l <s offset"
  shows "snd (ReadAt lib l p offset) = snd (fetch lib l offset (offset + of_nat (length p) - 1))"
  using assms by (simp add: ReadAt_def split: prod.splits sum.splits)

lemma fetch_request:
  assumes "url_Parse lib (url l) = None"
  shows "snd (fetch lib l b e) =
     [\<lparr>Method = ''GET'', URL = url l,
       ReqHeader = [''Range'' \<mapsto> [range_value b e], ''Accept-Encoding'' \<mapsto> [''identity'']],
       Close = False\<rparr>]"
  using assms
  by (simp add: fetch_def NewRequest_def Header_Add_def Let_def split: sum.splits)

lemma redirect_request:
  assumes "url_Parse lib canonical = None"
  shows "snd (redirect lib canonical tr) =
     [\<lparr>Method = ''GET'', URL = canonical, ReqHeader = [''Range'' \<mapsto> [''bytes=0-1'']],
       Close = False\<rparr>]"
  using assms
  by (simp add: redirect_def NewRequest_def Header_Set_def Let_def split: sum.splits)

text \<open>\<open>io.ReadFull\<close> on a stream that ends cleanly.\<close>

lemma ReadFull_clean:
  assumes "Fault rc = None"
  shows "count (ReadFull rc p) = min (length p) (length (Data rc))"
    and "take (count (ReadFull rc p)) (buffer (ReadFull rc p)) = take (length p) (Data rc)"
    and "drop (count (ReadFull rc p)) (buffer (ReadFull rc p)) = drop (count (ReadFull rc p)) p"
    and "failure (ReadFull rc p) =
           (if length p \<le> length (Data rc) then None
            else if Data rc = [] then Some EOF else Some ErrUnexpectedEOF)"
  using assms by (auto simp: ReadFull_def Let_def min_def)

text \<open>The definitions unfolded to run the model on the simulated registry.\<close>

lemmas example_simps =
  example_lib_def example_server_def example_layer_def table_server_def reply_def
  ReadAt_def fetch_def NewRequest_def ReadFull_def redirect_def
  Header_Add_def Header_Set_def Header_Get_def range_value_def FormatInt_def
  digits.simps digit_char_def quo_def

section \<open>Claims about the range read\<close>

text \<open>
  C6. The claim is that every 206 (Partial Content) response whose declared content
  type is a multipart range response fails with the unsupported-response error
  rather than being read, and that single-part 206 responses are read directly. The
  code first parses the Content-Type header and returns the "invalid media type"
  error when that fails, before it looks for \<open>multipart/\<close>: a single-part 206
  response without a Content-Type header is not read, and a response declared
  \<open>multipart/byteranges\<close> with a malformed parameter fails with the "invalid media
  type" error, not with "multipart not supported".

  As amended: for every 206 response whose Content-Type header
  \<open>mime.ParseMediaType\<close> parses without error, the range read fails with the
  "multipart not supported" error rather than reading the body when the media type
  begins with \<open>multipart/\<close>, and returns the body directly otherwise. A 206 response
  whose media type begins with \<open>multipart/\<close> is never read, also when the header has
  a parse error: the range read then fails as well.
\<close>

theorem fetch_206_multipart:
  assumes "snd (fetch lib l b e) = [req]"
    and "Client_Do lib (rt l) req = Inr res"
    and "StatusCode res = 206"
    and "mime_ParseMediaType lib (Header_Get (RespHeader res) ''Content-Type'') = (mediaType, perr)"
  shows "(prefix ''multipart/'' mediaType \<longrightarrow>
            (\<exists>e'. fst (fetch lib l b e) = Inl e') \<and>
            (perr = None \<longrightarrow> fst (fetch lib l b e) = Inl ErrMultipartNotSupported)) \<and>
         (\<not> prefix ''multipart/'' mediaType \<and> perr = None \<longrightarrow>
            fst (fetch lib l b e) = Inr (RespBody res))"
  using fetch_result [OF assms(1,2)] assms(3,4)
  by (cases perr) simp_all

theorem fetch_206_multipart_witness:
  "fst (fetch example_lib (example_layer ''mp'') 0 3) = Inl ErrMultipartNotSupported \<and>
   fst (fetch example_lib (example_layer ''aa'') 2 5) = Inr \<lparr>Data = ''2345'', Fault = None\<rparr>"
proof
  let ?req = "\<lparr>Method = ''GET'', URL = ''https://cdn.example/mp'',
                 ReqHeader = [''Range'' \<mapsto> [''bytes=0-3''], ''Accept-Encoding'' \<mapsto> [''identity'']],
                 Close = False\<rparr>"
  let ?res = "reply 206 ''206 Partial Content''
                [(''Content-Type'', ''multipart/byteranges; boundary=x'')] ''--x''"
  have sent: "snd (fetch example_lib (example_layer ''mp'') 0 3) = [?req]"
    by (simp add: example_simps)
  have answer: "Client_Do example_lib (rt (example_layer ''mp'')) ?req = Inr ?res"
    by (simp add: example_simps)
  have status: "StatusCode ?res = 206"
    by (simp add: reply_def)
  have parsed: "mime_ParseMediaType example_lib (Header_Get (RespHeader ?res) ''Content-Type'') =
                  (''multipart/byteranges'', None)"
    by (simp add: example_simps)
  have multi: "prefix ''multipart/'' ''multipart/byteranges''"
    by simp
  from fetch_206_multipart [OF sent answer status parsed] multi
  show "fst (fetch example_lib (example_layer ''mp'') 0 3) = Inl ErrMultipartNotSupported"
    by blast
next
  let ?req = "\<lparr>Method = ''GET'', URL = ''https://cdn.example/aa'',
                 ReqHeader = [''Range'' \<mapsto> [''bytes=2-5''], ''Accept-Encoding'' \<mapsto> [''identity'']],
                 Close = False\<rparr>"
  let ?res = "reply 206 ''206 Partial Content''
                [(''Content-Type'', ''application/octet-stream'')] ''2345''"
  have sent: "snd (fetch example_lib (example_layer ''aa'') 2 5) = [?req]"
    by (simp add: example_simps)
  have answer: "Client_Do example_lib (rt (example_layer ''aa'')) ?req = Inr ?res"
    by (simp add: example_simps)
  have status: "StatusCode ?res = 206"
    by (simp add: reply_def)
  have parsed: "mime_ParseMediaType example_lib (Header_Get (RespHeader ?res) ''Content-Type'') =
                  (''application/octet-stream'', None)"
    by (simp add: example_simps)
  have single: "\<not> prefix ''multipart/'' ''application/octet-stream''"
    by simp
  from fetch_206_multipart [OF sent answer status parsed] single
  have "fst (fetch example_lib (example_layer ''aa'') 2 5) = Inr (RespBody ?res)"
    by blast
  then show "fst (fetch example_lib (example_layer ''aa'') 2 5) = Inr \<lparr>Data = ''2345'', Fault = None\<rparr>"
    by (simp add: reply_def)
qed

theorem fetch_206_declared_type_counterexample:
  "example_server
     \<lparr>Method = ''GET'', URL = ''https://cdn.example/nt'',
      ReqHeader = [''Range'' \<mapsto> [''bytes=0-3''], ''Accept-Encoding'' \<mapsto> [''identity'']],
      Close = False\<rparr> =
     Inr (reply 206 ''206 Partial Content'' [] ''0123'') \<and>
   fst (fetch example_lib (example_layer ''nt'') 0 3) \<noteq>
     Inr (RespBody (reply 206 ''206 Partial Content'' [] ''0123'')) \<and>
   fst (fetch example_lib (example_layer ''nt'') 0 3) =
     Inl (ErrInvalidMediaType [] (ErrExternal ''mime: no media type'')) \<and>
   example_server
     \<lparr>Method = ''GET'', URL = ''https://cdn.example/mq'',
      ReqHeader = [''Range'' \<mapsto> [''bytes=0-3''], ''Accept-Encoding'' \<mapsto> [''identity'']],
      Close = False\<rparr> =
     Inr (reply 206 ''206 Partial Content''
            [(''Content-Type'', ''multipart/byteranges; boundary'')] ''--x'') \<and>
   fst (fetch example_lib (example_layer ''mq'') 0 3) \<noteq> Inl ErrMultipartNotSupported \<and>
   fst (fetch example_lib (example_layer ''mq'') 0 3) =
     Inl (ErrInvalidMediaType ''multipart/byteranges''
            (ErrExternal ''mime: invalid media parameter''))"
  by (simp add: example_simps)

text \<open>
  C10. For every 206 response whose Content-Type header is not a parsable media type,
  the range read fails with the "invalid media type" error rather than reading the
  body, although the response is not a multipart one. An absent header reads as the
  empty string, so the same holds for a response without Content-Type as soon as the
  parser rejects the empty string (Go's does, with "mime: no media type").
\<close>

theorem fetch_206_unparsable:
  assumes "snd (fetch lib l b e) = [req]"
    and "Client_Do lib (rt l) req = Inr res"
    and "StatusCode res = 206"
  shows "(mime_ParseMediaType lib (Header_Get (RespHeader res) ''Content-Type'') = (mt, Some perr) \<longrightarrow>
            fst (fetch lib l b e) = Inl (ErrInvalidMediaType mt perr)) \<and>
         (RespHeader res ''Content-Type'' = None \<and> mime_ParseMediaType lib [] = (mt, Some perr) \<longrightarrow>
            fst (fetch lib l b e) = Inl (ErrInvalidMediaType mt perr))"
  using fetch_result [OF assms(1,2)] assms(3)
  by (auto simp: Header_Get_def)

theorem fetch_206_unparsable_witness:
  "RespHeader (reply 206 ''206 Partial Content'' [] ''0123'') ''Content-Type'' = None \<and>
   fst (fetch example_lib (example_layer ''nt'') 0 3) =
     Inl (ErrInvalidMediaType [] (ErrExternal ''mime: no media type''))"
proof -
  let ?req = "\<lparr>Method = ''GET'', URL = ''https://cdn.example/nt'',
                 ReqHeader = [''Range'' \<mapsto> [''bytes=0-3''], ''Accept-Encoding'' \<mapsto> [''identity'']],
                 Close = False\<rparr>"
  let ?res = "reply 206 ''206 Partial Content'' [] ''0123''"
  have sent: "snd (fetch example_lib (example_layer ''nt'') 0 3) = [?req]"
    by (simp add: example_simps)
  have answer: "Client_Do example_lib (rt (example_layer ''nt'')) ?req = Inr ?res"
    by (simp add: example_simps)
  have status: "StatusCode ?res = 206"
    by (simp add: reply_def)
  have absent: "RespHeader ?res ''Content-Type'' = None"
    by (simp add: reply_def)
  have rejected: "mime_ParseMediaType example_lib [] = ([], Some (ErrExternal ''mime: no media type''))"
    by (simp add: example_lib_def)
  from fetch_206_unparsable [OF sent answer status, of "[]" "ErrExternal ''mime: no media type''"]
    absent rejected
  show ?thesis by blast
qed

text \<open>
  C2. The claim is that a call with offset greater than or equal to the layer's size
  returns 0 bytes and no error without a network fetch. The guard compares with
  \<open>offset > size\<close>, so at offset equal to size (size 10, offset 10, a buffer of four
  bytes) the code sends a GET for the range 10-13, which lies wholly beyond the blob,
  and returns the error made from the server's 416 answer.
\<close>

theorem ReadAt_offset_equal_size_fetches:
  "size64 (example_layer ''aa'') = 10 \<and>
   ReadAt example_lib (example_layer ''aa'') ''....'' 10 =
     (\<lparr>count = 0,
       failure = Some (ErrUnexpectedStatusCode ''416 Requested Range Not Satisfiable''),
       buffer = ''....''\<rparr>,
      [\<lparr>Method = ''GET'', URL = ''https://cdn.example/aa'',
        ReqHeader = [''Range'' \<mapsto> [''bytes=10-13''], ''Accept-Encoding'' \<mapsto> [''identity'']],
        Close = False\<rparr>])"
  by (simp add: example_simps)

text \<open>
  C3. The claim is that a non-empty read with offset below the size, answered with
  206, returns \<open>min(len(p), size - offset)\<close> bytes equal to the slice of the content
  and no error. The code reads with \<open>io.ReadFull\<close>, so a read whose buffer reaches
  past the end of the blob returns the bytes that exist together with
  \<open>io.ErrUnexpectedEOF\<close>: on the ten-byte blob, four bytes at offset 8 give 2 bytes
  and that error.

  As amended: for every non-empty read with \<open>0 \<le> offset < size\<close>, answered with a 206
  response whose Content-Type parses to a media type that is not multipart and whose
  body is the requested range of the content cut at its end, \<open>ReadAt\<close> returns exactly
  \<open>min(len(p), size - offset)\<close> bytes, equal to the corresponding slice of the content,
  with no error when \<open>len(p) \<le> size - offset\<close> and with \<open>io.ErrUnexpectedEOF\<close> otherwise.
\<close>

theorem ReadAt_206_slice:
  assumes "p \<noteq> []" and "0 \<le> sint offset" and "sint offset < sint (size64 l)"
    and "length content = nat (sint (size64 l))"
    and "snd (ReadAt lib l p offset) = [req]"
    and "Client_Do lib (rt l) req = Inr res"
    and "StatusCode res = 206"
    and "mime_ParseMediaType lib (Header_Get (RespHeader res) ''Content-Type'') = (mt, None)"
    and "\<not> prefix ''multipart/'' mt"
    and "RespBody res = \<lparr>Data = take (length p) (drop (nat (sint offset)) content), Fault = None\<rparr>"
  shows "count (fst (ReadAt lib l p offset)) = min (length p) (nat (sint (size64 l) - sint offset)) \<and>
         take (count (fst (ReadAt lib l p offset))) (buffer (fst (ReadAt lib l p offset))) =
           take (count (fst (ReadAt lib l p offset))) (drop (nat (sint offset)) content) \<and>
         failure (fst (ReadAt lib l p offset)) =
           (if int (length p) \<le> sint (size64 l) - sint offset then None
            else Some ErrUnexpectedEOF)"
proof -
  let ?end = "offset + of_nat (length p) - 1"
  let ?slice = "take (length p) (drop (nat (sint offset)) content)"
  have guard: "\<not> size64 l <s offset"
    using assms(3) by (simp add: word_sless_alt)
  have sent: "snd (fetch lib l offset ?end) = [req]"
    using snd_ReadAt_proceeds [OF assms(1) guard] assms(5) by simp
  have "fst (fetch lib l offset ?end) = Inr (RespBody res)"
    using fetch_result [OF sent assms(6)] assms(7,8,9) by simp
  then have "fetch lib l offset ?end = (Inr (RespBody res), [req])"
    using sent by (simp add: prod_eq_iff)
  then have read: "fst (ReadAt lib l p offset) = ReadFull (RespBody res) p"
    using ReadAt_proceeds [OF assms(1) guard] by simp
  have clean: "Fault (RespBody res) = None" and data: "Data (RespBody res) = ?slice"
    using assms(10) by simp_all
  have len: "length ?slice = min (length p) (nat (sint (size64 l) - sint offset))"
    using assms(2,3,4) by (simp add: min_def nat_diff_distrib)
  have pos: "0 < nat (sint (size64 l) - sint offset)"
    using assms(3) by simp
  have n: "count (fst (ReadAt lib l p offset)) = min (length p) (nat (sint (size64 l) - sint offset))"
    using ReadFull_clean(1) [OF clean, of p] read data len by simp
  have bytes: "take (count (fst (ReadAt lib l p offset))) (buffer (fst (ReadAt lib l p offset))) =
           take (count (fst (ReadAt lib l p offset))) (drop (nat (sint offset)) content)"
  proof -
    have dl: "length (drop (nat (sint offset)) content) = nat (sint (size64 l) - sint offset)"
      using assms(2,3,4) by (simp add: nat_diff_distrib)
    have "take (length p) (drop (nat (sint offset)) content) =
          take (min (length p) (nat (sint (size64 l) - sint offset))) (drop (nat (sint offset)) content)"
      using dl by (cases "length p \<le> nat (sint (size64 l) - sint offset)") (simp_all add: min_def)
    then show ?thesis
      using ReadFull_clean(2) [OF clean, of p] read data n by simp
  qed
  have nonempty: "?slice \<noteq> []"
    using len pos assms(1) by (metis length_greater_0_conv min_less_iff_conj)
  have err: "failure (fst (ReadAt lib l p offset)) =
           (if int (length p) \<le> sint (size64 l) - sint offset then None
            else Some ErrUnexpectedEOF)"
    using ReadFull_clean(4) [OF clean, of p] read data len nonempty assms(3)
    by (auto simp: min_def)
  from n bytes err show ?thesis by blast
qed

theorem ReadAt_206_slice_witness:
  "count (fst (ReadAt example_lib (example_layer ''aa'') ''....'' 2)) = 4 \<and>
   failure (fst (ReadAt example_lib (example_layer ''aa'') ''....'' 2)) = None \<and>
   count (fst (ReadAt example_lib (example_layer ''aa'') ''....'' 8)) = 2 \<and>
   failure (fst (ReadAt example_lib (example_layer ''aa'') ''....'' 8)) = Some ErrUnexpectedEOF"
proof -
  let ?l = "example_layer ''aa''"
  let ?req = "\<lambda>r. \<lparr>Method = ''GET'', URL = ''https://cdn.example/aa'',
                 ReqHeader = [''Range'' \<mapsto> [r], ''Accept-Encoding'' \<mapsto> [''identity'']],
                 Close = False\<rparr>"
  let ?res = "reply 206 ''206 Partial Content'' [(''Content-Type'', ''application/octet-stream'')]"
  have nonempty: "''....'' \<noteq> []" by simp
  have size: "length ''0123456789'' = nat (sint (size64 ?l))" by (simp add: example_layer_def)
  have single: "\<not> prefix ''multipart/'' ''application/octet-stream''" by simp
  have parsed: "mime_ParseMediaType example_lib (Header_Get (RespHeader (?res b)) ''Content-Type'') =
                  (''application/octet-stream'', None)" for b
    by (simp add: example_simps)
  have status: "StatusCode (?res b) = 206" for b by (simp add: reply_def)

  have lower2: "0 \<le> sint (2 :: int64)" by simp
  have upper2: "sint (2 :: int64) < sint (size64 ?l)" by (simp add: example_layer_def)
  have sent2: "snd (ReadAt example_lib ?l ''....'' 2) = [?req ''bytes=2-5'']"
    by (simp add: example_simps)
  have answer2: "Client_Do example_lib (rt ?l) (?req ''bytes=2-5'') = Inr (?res ''2345'')"
    by (simp add: example_simps)
  have body2: "RespBody (?res ''2345'') =
      \<lparr>Data = take (length ''....'') (drop (nat (sint (2 :: int64))) ''0123456789''), Fault = None\<rparr>"
    by (simp add: reply_def)
  note inside = ReadAt_206_slice [OF nonempty lower2 upper2 size sent2 answer2 status parsed single body2]

  have lower8: "0 \<le> sint (8 :: int64)" by simp
  have upper8: "sint (8 :: int64) < sint (size64 ?l)" by (simp add: example_layer_def)
  have sent8: "snd (ReadAt example_lib ?l ''....'' 8) = [?req ''bytes=8-11'']"
    by (simp add: example_simps)
  have answer8: "Client_Do example_lib (rt ?l) (?req ''bytes=8-11'') = Inr (?res ''89'')"
    by (simp add: example_simps)
  have body8: "RespBody (?res ''89'') =
      \<lparr>Data = take (length ''....'') (drop (nat (sint (8 :: int64))) ''0123456789''), Fault = None\<rparr>"
    by (simp add: reply_def)
  note across = ReadAt_206_slice [OF nonempty lower8 upper8 size sent8 answer8 status parsed single body8]

  have sz: "sint (size64 ?l) = 10" by (simp add: example_layer_def)
  from inside across show ?thesis
    by (simp add: sz)
qed

theorem ReadAt_206_no_error_counterexample:
  "example_server
     \<lparr>Method = ''GET'', URL = ''https://cdn.example/aa'',
      ReqHeader = [''Range'' \<mapsto> [''bytes=8-11''], ''Accept-Encoding'' \<mapsto> [''identity'']],
      Close = False\<rparr> =
     Inr (reply 206 ''206 Partial Content'' [(''Content-Type'', ''application/octet-stream'')] ''89'') \<and>
   count (fst (ReadAt example_lib (example_layer ''aa'') ''....'' 8)) = min (length ''....'') (10 - 8) \<and>
   \<not> (failure (fst (ReadAt example_lib (example_layer ''aa'') ''....'' 8)) = None)"
  by (simp add: example_simps)

text \<open>
  C8. Every \<open>ReadAt\<close> that is not a no-op (non-empty buffer, offset not greater than
  the size) and whose URL is accepted by \<open>http.NewRequest\<close> sends one GET whose Range
  header is \<open>bytes=offset-end\<close>, with \<open>end\<close> the \<open>int64\<close> value of
  \<open>offset + len(p) - 1\<close> (which is that sum itself whenever it is below \<open>2^63\<close>), and
  whose Accept-Encoding header is \<open>identity\<close>. The redirect probe sends one GET whose
  Range header is \<open>bytes=0-1\<close>.
\<close>

theorem request_headers:
  assumes "p \<noteq> []" and "\<not> size64 l <s offset"
    and "url_Parse lib (url l) = None" and "url_Parse lib canonical = None"
  shows "snd (ReadAt lib l p offset) =
           [\<lparr>Method = ''GET'', URL = url l,
             ReqHeader =
               [''Range'' \<mapsto>
                  [''bytes='' @ FormatInt (sint offset) @ ''-'' @
                   FormatInt (sint (offset + of_nat (length p) - 1))],
                ''Accept-Encoding'' \<mapsto> [''identity'']],
             Close = False\<rparr>] \<and>
         (sint offset + int (length p) - 1 < 2 ^ 63 \<longrightarrow>
            sint (offset + of_nat (length p) - 1) = sint offset + int (length p) - 1) \<and>
         snd (redirect lib canonical tr) =
           [\<lparr>Method = ''GET'', URL = canonical, ReqHeader = [''Range'' \<mapsto> [''bytes=0-1'']],
             Close = False\<rparr>]"
proof (intro conjI impI)
  show "snd (ReadAt lib l p offset) =
           [\<lparr>Method = ''GET'', URL = url l,
             ReqHeader =
               [''Range'' \<mapsto>
                  [''bytes='' @ FormatInt (sint offset) @ ''-'' @
                   FormatInt (sint (offset + of_nat (length p) - 1))],
                ''Accept-Encoding'' \<mapsto> [''identity'']],
             Close = False\<rparr>]"
    using snd_ReadAt_proceeds [OF assms(1,2)] fetch_request [OF assms(3)]
    by (simp add: range_value_def)
next
  assume "sint offset + int (length p) - 1 < 2 ^ 63"
  then show "sint (offset + of_nat (length p) - 1) = sint offset + int (length p) - 1"
    using assms(1) by (intro sint_range_end) simp_all
next
  show "snd (redirect lib canonical tr) =
           [\<lparr>Method = ''GET'', URL = canonical, ReqHeader = [''Range'' \<mapsto> [''bytes=0-1'']],
             Close = False\<rparr>]"
    by (rule redirect_request [OF assms(4)])
qed

theorem request_headers_witness:
  "snd (ReadAt example_lib (example_layer ''aa'') ''....'' 2) =
     [\<lparr>Method = ''GET'', URL = ''https://cdn.example/aa'',
       ReqHeader = [''Range'' \<mapsto> [''bytes=2-5''], ''Accept-Encoding'' \<mapsto> [''identity'']],
       Close = False\<rparr>] \<and>
   sint ((2 :: int64) + of_nat (length ''....'') - 1) = 5 \<and>
   snd (redirect example_lib ''https://registry.example/v2/app/blobs/sha256:aa'' example_server) =
     [\<lparr>Method = ''GET'', URL = ''https://registry.example/v2/app/blobs/sha256:aa'',
       ReqHeader = [''Range'' \<mapsto> [''bytes=0-1'']], Close = False\<rparr>]"
proof -
  have nonempty: "''....'' \<noteq> []" by simp
  have inside: "\<not> size64 (example_layer ''aa'') <s 2" by (simp add: example_layer_def)
  have parses: "url_Parse example_lib (url (example_layer ''aa'')) = None"
    by (simp add: example_lib_def)
  have parses': "url_Parse example_lib ''https://registry.example/v2/app/blobs/sha256:aa'' = None"
    by (simp add: example_lib_def)
  show ?thesis
    using request_headers [OF nonempty inside parses parses', of example_server]
    by (simp add: example_layer_def FormatInt_def digits.simps digit_char_def)
qed

text \<open>
  C9. For every call to \<open>ReadAt\<close> with a non-empty buffer and a negative offset, on a
  layer whose size is not negative, the no-op guard does not apply: the call goes on
  to \<open>fetch\<close> and its result is the result of that range read. The GET it sends (when
  the URL parses) has a Range header whose first bound is the negative offset, a minus
  sign followed by the digits of its absolute value.
\<close>

theorem ReadAt_negative_offset:
  assumes "p \<noteq> []" and "offset <s 0" and "0 \<le>s size64 l"
  shows "ReadAt lib l p offset =
           (case fetch lib l offset (offset + of_nat (length p) - 1) of
              (Inl e, reqs) \<Rightarrow> (\<lparr>count = 0, failure = Some e, buffer = p\<rparr>, reqs)
            | (Inr rc, reqs) \<Rightarrow> (ReadFull rc p, reqs)) \<and>
         (url_Parse lib (url l) = None \<longrightarrow>
            (\<exists>req. snd (ReadAt lib l p offset) = [req] \<and> Method req = ''GET'' \<and>
                   ReqHeader req ''Range'' =
                     Some [''bytes=-'' @ digits (nat (- sint offset)) @ ''-'' @
                           FormatInt (sint (offset + of_nat (length p) - 1))]))"
proof -
  have neg: "sint offset < 0" using assms(2) by (simp add: word_sless_alt)
  have "0 \<le> sint (size64 l)" using assms(3) by (simp add: word_sle_eq)
  with neg have guard: "\<not> size64 l <s offset" by (simp add: word_sless_alt)
  have first: "ReadAt lib l p offset =
           (case fetch lib l offset (offset + of_nat (length p) - 1) of
              (Inl e, reqs) \<Rightarrow> (\<lparr>count = 0, failure = Some e, buffer = p\<rparr>, reqs)
            | (Inr rc, reqs) \<Rightarrow> (ReadFull rc p, reqs))"
    by (rule ReadAt_proceeds [OF assms(1) guard])
  have second: "\<exists>req. snd (ReadAt lib l p offset) = [req] \<and> Method req = ''GET'' \<and>
                   ReqHeader req ''Range'' =
                     Some [''bytes=-'' @ digits (nat (- sint offset)) @ ''-'' @
                           FormatInt (sint (offset + of_nat (length p) - 1))]"
    if "url_Parse lib (url l) = None"
    using snd_ReadAt_proceeds [OF assms(1) guard] fetch_request [OF that] neg
    by (simp add: range_value_def FormatInt_def)
  from first second show ?thesis by blast
qed

theorem ReadAt_negative_offset_witness:
  "ReadAt example_lib (example_layer ''aa'') ''....'' (- 3) =
     (\<lparr>count = 0,
       failure = Some (ErrUnexpectedStatusCode ''416 Requested Range Not Satisfiable''),
       buffer = ''....''\<rparr>,
      [\<lparr>Method = ''GET'', URL = ''https://cdn.example/aa'',
        ReqHeader = [''Range'' \<mapsto> [''bytes=-3-0''], ''Accept-Encoding'' \<mapsto> [''identity'']],
        Close = False\<rparr>])"
proof -
  have nonempty: "''....'' \<noteq> []" by simp
  have negative: "(- 3 :: int64) <s 0" by (simp add: word_sless_alt)
  have size_ok: "0 \<le>s size64 (example_layer ''aa'')" by (simp add: example_layer_def word_sle_eq)
  from ReadAt_negative_offset [OF nonempty negative size_ok, of example_lib]
  have "ReadAt example_lib (example_layer ''aa'') ''....'' (- 3) =
          (case fetch example_lib (example_layer ''aa'') (- 3) (- 3 + of_nat (length ''....'') - 1) of
             (Inl e, reqs) \<Rightarrow> (\<lparr>count = 0, failure = Some e, buffer = ''....''\<rparr>, reqs)
           | (Inr rc, reqs) \<Rightarrow> (ReadFull rc ''....'', reqs))"
    by blast
  then show ?thesis
    by (simp add: example_lib_def example_server_def example_layer_def table_server_def reply_def
          fetch_def NewRequest_def Header_Add_def Header_Get_def range_value_def FormatInt_def
          digits.simps digit_char_def)
qed

section \<open>Claims about redirect resolution\<close>

text \<open>
  C4. Redirect resolution of a canonical blob URL has exactly three cases, decided by
  the response to the probe: a status from 200 to 299 yields the canonical URL; a
  status from 300 to 399 with a redirect target (a non-empty value of the Location
  header, which is how the code tests for its presence) yields that target; every
  other response, a 3xx without a target included, fails with the error that carries
  the observed status code.
\<close>

theorem redirect_three_cases:
  assumes "snd (redirect lib canonical tr) = [req]" and "tr req = Inr res"
  shows "fst (redirect lib canonical tr) =
     (if 200 \<le> StatusCode res \<and> StatusCode res \<le> 299 then Inr canonical
      else if 300 \<le> StatusCode res \<and> StatusCode res \<le> 399 \<and>
              Header_Get (RespHeader res) ''Location'' \<noteq> []
           then Inr (Header_Get (RespHeader res) ''Location'')
           else Inl (ErrRegistryCode (StatusCode res)))"
proof (cases "url_Parse lib canonical")
  case (Some e)
  with assms(1) show ?thesis by (simp add: redirect_def NewRequest_def)
next
  case None
  then have nr: "NewRequest lib ''GET'' canonical =
      Inr \<lparr>Method = ''GET'', URL = canonical, ReqHeader = Map.empty, Close = False\<rparr>"
    by (simp add: NewRequest_def)
  from assms(1) nr have req: "req = \<lparr>Method = ''GET'', URL = canonical,
      ReqHeader = Header_Set Map.empty ''Range'' ''bytes=0-1'', Close = False\<rparr>"
    by (auto simp: redirect_def Let_def split: sum.splits)
  show ?thesis
    using assms(2) nr req
    by (simp add: redirect_def quo_100_eq_2 quo_100_eq_3 Let_def)
qed

theorem redirect_three_cases_witness:
  "fst (redirect example_lib ''https://registry.example/v2/app/blobs/sha256:bb'' example_server) =
     Inr ''https://registry.example/v2/app/blobs/sha256:bb'' \<and>
   fst (redirect example_lib ''https://registry.example/v2/app/blobs/sha256:aa'' example_server) =
     Inr ''https://cdn.example/aa'' \<and>
   fst (redirect example_lib ''https://registry.example/v2/app/blobs/sha256:cc'' example_server) =
     Inl (ErrRegistryCode 404) \<and>
   fst (redirect example_lib ''https://registry.example/v2/app/blobs/sha256:dd'' example_server) =
     Inl (ErrRegistryCode 302)"
proof -
  have probe: "snd (redirect example_lib u example_server) =
      [\<lparr>Method = ''GET'', URL = u, ReqHeader = [''Range'' \<mapsto> [''bytes=0-1'']], Close = False\<rparr>]"
    for u
    by (simp add: redirect_def NewRequest_def example_lib_def Header_Set_def Let_def
             split: sum.splits)
  have bb: "example_server \<lparr>Method = ''GET'', URL = ''https://registry.example/v2/app/blobs/sha256:bb'',
                ReqHeader = [''Range'' \<mapsto> [''bytes=0-1'']], Close = False\<rparr> =
            Inr (reply 206 ''206 Partial Content'' [] ''01'')"
    by (simp add: example_simps)
  have aa: "example_server \<lparr>Method = ''GET'', URL = ''https://registry.example/v2/app/blobs/sha256:aa'',
                ReqHeader = [''Range'' \<mapsto> [''bytes=0-1'']], Close = False\<rparr> =
            Inr (reply 307 ''307 Temporary Redirect'' [(''Location'', ''https://cdn.example/aa'')] [])"
    by (simp add: example_simps)
  have cc: "example_server \<lparr>Method = ''GET'', URL = ''https://registry.example/v2/app/blobs/sha256:cc'',
                ReqHeader = [''Range'' \<mapsto> [''bytes=0-1'']], Close = False\<rparr> =
            Inr (reply 404 ''404 Not Found'' [] [])"
    by (simp add: example_simps)
  have dd: "example_server \<lparr>Method = ''GET'', URL = ''https://registry.example/v2/app/blobs/sha256:dd'',
                ReqHeader = [''Range'' \<mapsto> [''bytes=0-1'']], Close = False\<rparr> =
            Inr (reply 302 ''302 Found'' [] [])"
    by (simp add: example_simps)
  show ?thesis
    using redirect_three_cases [OF probe bb] redirect_three_cases [OF probe aa]
      redirect_three_cases [OF probe cc] redirect_three_cases [OF probe dd]
    by (simp add: reply_def Header_Get_def)
qed

section \<open>Claims about the layer enumerator\<close>

text \<open>
  The loop of \<open>Layers\<close> returns the empty list and an error as soon as it reaches a
  layer whose redirect resolution fails, whatever it has built so far; an earlier
  failure (of \<open>Size\<close>, of \<open>Digest\<close> or of another redirect) does the same.
\<close>

lemma Layers_loop_fails:
  assumes "layer \<in> set layers" and "v1_Digest layer = Inr d"
    and "fst (redirect lib (blob_URL pl r d) (Remote_rt r)) = Inl e"
  shows "\<exists>e'. fst (Layers_loop lib pl r layers eLayers) = ([], Some e')"
  using assms(1)
proof (induction layers arbitrary: eLayers)
  case Nil
  then show ?case by simp
next
  case (Cons x rest)
  show ?case
  proof (cases "v1_Size x")
    case (Inl a)
    then show ?thesis by simp
  next
    case sz: (Inr sz)
    show ?thesis
    proof (cases "v1_Digest x")
      case (Inl a)
      with sz show ?thesis by simp
    next
      case dx: (Inr dx)
      obtain res reqs where red: "redirect lib (blob_URL pl r dx) (Remote_rt r) = (res, reqs)"
        by (cases "redirect lib (blob_URL pl r dx) (Remote_rt r)")
      show ?thesis
      proof (cases res)
        case (Inl a)
        with sz dx red show ?thesis by simp
      next
        case (Inr u)
        have "x \<noteq> layer"
        proof
          assume "x = layer"
          with dx assms(2) have "dx = d" by simp
          with red Inr assms(3) show False by simp
        qed
        with Cons.prems have "layer \<in> set rest" by simp
        from Cons.IH [OF this] obtain e' where
          "fst (Layers_loop lib pl r rest
                 (eLayers @ [\<lparr>digest = dx, url = u, blobURL = blob_URL pl r dx, size64 = sz,
                              rt = Remote_rt r\<rparr>])) = ([], Some e')"
          by blast
        with sz dx red Inr show ?thesis
          by (simp add: case_prod_beta)
      qed
    qed
  qed
qed

lemmas layers_simps =
  Layers_def blob_URL_def Hash_String_def example_pathlib_def example_remote_def

text \<open>
  C5. For every image whose layer list contains at least one layer whose redirect
  resolution fails, \<open>Layers\<close> returns an error and the \<open>nil\<close> list: the layers resolved
  before the failure are not returned.
\<close>

theorem Layers_fails_fast:
  assumes "image_Layers (image r) = Inr layers"
    and "layer \<in> set layers" and "v1_Digest layer = Inr d"
    and "fst (redirect lib (blob_URL pl r d) (Remote_rt r)) = Inl e"
  shows "\<exists>e'. fst (Layers lib pl r) = ([], Some e')"
  using Layers_loop_fails [OF assms(2,3,4)] assms(1)
  by (simp add: Layers_def)

theorem Layers_fails_fast_witness:
  "fst (redirect example_lib ''https://registry.example/v2/app/blobs/sha256:aa'' example_server) =
     Inr ''https://cdn.example/aa'' \<and>
   fst (redirect example_lib ''https://registry.example/v2/app/blobs/sha256:cc'' example_server) =
     Inl (ErrRegistryCode 404) \<and>
   (\<exists>e'. fst (Layers example_lib example_pathlib (example_remote [''aa'', ''cc'', ''bb''])) =
           ([], Some e'))"
proof (intro conjI)
  let ?r = "example_remote [''aa'', ''cc'', ''bb'']"
  let ?cc = "\<lparr>v1_Size = Inr 10, v1_Digest = Inr \<lparr>Algorithm = ''sha256'', Hex = ''cc''\<rparr>\<rparr>"
  let ?layers = "map (\<lambda>name. \<lparr>v1_Size = Inr (10 :: int64),
                                v1_Digest = Inr \<lparr>Algorithm = ''sha256'', Hex = name\<rparr>\<rparr>)
                   [''aa'', ''cc'', ''bb'']"
  show "fst (redirect example_lib ''https://registry.example/v2/app/blobs/sha256:aa'' example_server) =
     Inr ''https://cdn.example/aa''"
    by (simp add: example_simps)
  show fails: "fst (redirect example_lib ''https://registry.example/v2/app/blobs/sha256:cc''
                  example_server) = Inl (ErrRegistryCode 404)"
    by (simp add: example_simps)
  have image: "image_Layers (image ?r) = Inr ?layers"
    by (simp add: example_remote_def)
  have member: "?cc \<in> set ?layers" by simp
  have dig: "v1_Digest ?cc = Inr \<lparr>Algorithm = ''sha256'', Hex = ''cc''\<rparr>" by simp
  have blob: "blob_URL example_pathlib ?r \<lparr>Algorithm = ''sha256'', Hex = ''cc''\<rparr> =
                ''https://registry.example/v2/app/blobs/sha256:cc''"
    by (simp add: layers_simps)
  have rt: "Remote_rt ?r = example_server" by (simp add: example_remote_def)
  have fails': "fst (redirect example_lib
                  (blob_URL example_pathlib ?r \<lparr>Algorithm = ''sha256'', Hex = ''cc''\<rparr>)
                  (Remote_rt ?r)) = Inl (ErrRegistryCode 404)"
    using fails by (simp only: blob rt)
  show "\<exists>e'. fst (Layers example_lib example_pathlib ?r) = ([], Some e')"
    by (rule Layers_fails_fast [OF image member dig fails'])
qed

section \<open>Claims about the multi-layer lookup\<close>



text \<open>
  The error group keeps the first error: once an error is recorded it stays, and the
  error of a run is that of the first goroutine, in the order of completion, that
  failed.
\<close>

lemma run_workers_keeps_error:
  "snd (run_workers est fp layers sched (result, Some e)) = Some e"
  by (induction sched arbitrary: result) (auto split: sum.splits option.splits)

lemma run_workers_first_error:
  assumes "ev \<in> set sched" and "worker est fp (layers ! fst ev) = Inl e"
  shows "\<exists>before ev' after e'. sched = before @ ev' # after \<and>
           (\<forall>b \<in> set before. \<forall>x. worker est fp (layers ! fst b) \<noteq> Inl x) \<and>
           worker est fp (layers ! fst ev') = Inl e' \<and>
           snd (run_workers est fp layers sched (result, None)) = Some e'"
  using assms(1)
proof (induction sched arbitrary: result)
  case Nil
  then show ?case by simp
next
  case (Cons a sched)
  obtain i j where a: "a = (i, j)" by (cases a)
  show ?case
  proof (cases "worker est fp (layers ! i)")
    case (Inl x)
    then have "snd (run_workers est fp layers (a # sched) (result, None)) = Some x"
      by (simp add: a run_workers_keeps_error)
    with Inl a show ?thesis
      by (intro exI [of _ "[]"] exI [of _ a] exI [of _ sched] exI [of _ x]) simp
  next
    case (Inr found)
    with Cons.prems a assms(2) have "ev \<in> set sched" by auto
    define result' where
      "result' = (case found of None \<Rightarrow> result | Some b \<Rightarrow> result(Digest (layers ! j) \<mapsto> b))"
    from Cons.IH [OF \<open>ev \<in> set sched\<close>, of result'] obtain before ev' after e' where
      split: "sched = before @ ev' # after"
      and ok: "\<forall>b \<in> set before. \<forall>x. worker est fp (layers ! fst b) \<noteq> Inl x"
      and bad: "worker est fp (layers ! fst ev') = Inl e'"
      and res: "snd (run_workers est fp layers sched (result', None)) = Some e'"
      by blast
    have "snd (run_workers est fp layers (a # sched) (result, None)) = Some e'"
      using res Inr by (cases found) (simp_all add: a result'_def)
    moreover have "a # sched = (a # before) @ ev' # after" using split by simp
    moreover have "\<forall>b \<in> set (a # before). \<forall>x. worker est fp (layers ! fst b) \<noteq> Inl x"
      using ok Inr a by simp
    ultimately show ?thesis using bad by blast
  qed
qed





text \<open>The simulated registry resolves \<open>app\<close> to the image of two layers.\<close>

lemma example_New:
  "New (example_registry names) ''app'' = Inr (example_remote names)"
  by (simp add: New_def example_registry_def example_remote_def)

lemma example_Layers:
  "fst (Layers example_lib example_pathlib (example_remote [''aa'', ''bb''])) =
     ([example_layer ''aa'',
       (example_layer ''bb'')\<lparr>url := ''https://registry.example/v2/app/blobs/sha256:bb''\<rparr>], None)"
  by (simp add: layers_simps example_simps)




text \<open>
  C7. If any per-layer lookup worker fails, \<open>run\<close> returns the first worker error,
  the error of the first goroutine to fail in the order of completion, and prints no
  payload at all, also when the lookups of other layers completed with a payload. The
  order of completion is any schedule in which every goroutine finishes once.
\<close>

theorem run_reports_first_worker_error:
  assumes "length args = 3" and "New reg (args ! 1) = Inr r"
    and "fst (Layers lib pl r) = (layers, None)"
    and "schedule_ok layers sched"
    and "i < length layers" and "worker est (args ! 2) (layers ! i) = Inl e"
  shows "\<exists>before ev after e'. sched = before @ ev # after \<and>
           (\<forall>b \<in> set before. \<forall>x. worker est (args ! 2) (layers ! fst b) \<noteq> Inl x) \<and>
           worker est (args ! 2) (layers ! fst ev) = Inl e' \<and>
           run reg lib pl est args sched = ([], Some e')"
proof -
  from assms(4,5) have "i \<in> set (map fst sched)"
    by (simp add: schedule_ok_def)
  then obtain ev where ev: "ev \<in> set sched" "fst ev = i" by auto
  with assms(6) have "worker est (args ! 2) (layers ! fst ev) = Inl e" by simp
  from run_workers_first_error [OF ev(1) this, of Map.empty] obtain before ev' after e' where
    split: "sched = before @ ev' # after"
    and ok: "\<forall>b \<in> set before. \<forall>x. worker est (args ! 2) (layers ! fst b) \<noteq> Inl x"
    and bad: "worker est (args ! 2) (layers ! fst ev') = Inl e'"
    and res: "snd (run_workers est (args ! 2) layers sched (Map.empty, None)) = Some e'"
    by blast
  from res obtain result where
    "run_workers est (args ! 2) layers sched (Map.empty, None) = (result, Some e')"
    by (cases "run_workers est (args ! 2) layers sched (Map.empty, None)") simp
  then have "run reg lib pl est args sched = ([], Some e')"
    using assms(1,2,3) by (simp add: run_def)
  with split ok bad show ?thesis by blast
qed

theorem run_reports_first_worker_error_witness:
  "worker (example_estargz [(''bb'', ''new'')] [''aa'']) ''etc/motd''
     ((example_layer ''bb'')\<lparr>url := ''https://registry.example/v2/app/blobs/sha256:bb''\<rparr>) =
     Inr (Some ''new'') \<and>
   run (example_registry [''aa'', ''bb'']) example_lib example_pathlib
       (example_estargz [(''bb'', ''new'')] [''aa''])
       [''ecrane'', ''app'', ''etc/motd''] [(1, 1), (0, 0)] =
     ([], Some (ErrExternal ''cannot open aa''))"
proof -
  let ?layers = "[example_layer ''aa'',
       (example_layer ''bb'')\<lparr>url := ''https://registry.example/v2/app/blobs/sha256:bb''\<rparr>]"
  let ?est = "example_estargz [(''bb'', ''new'')] [''aa'']"
  let ?args = "[''ecrane'', ''app'', ''etc/motd'']"
  let ?sched = "[(1, 1), (0, 0)] :: (nat \<times> nat) list"
  have hit: "worker ?est ''etc/motd'' (?layers ! 1) = Inr (Some ''new'')"
    by (simp add: worker_def Digest_def Size_def example_estargz_def example_layer_def)
  have three: "length ?args = 3" by simp
  have new: "New (example_registry [''aa'', ''bb'']) (?args ! 1) = Inr (example_remote [''aa'', ''bb''])"
    by (simp add: example_New)
  have sched: "schedule_ok ?layers ?sched"
    by (auto simp: schedule_ok_def)
  have idx: "(0 :: nat) < length ?layers" by simp
  have broken: "worker ?est (?args ! 2) (?layers ! 0) = Inl (ErrExternal ''cannot open aa'')"
    by (simp add: worker_def Digest_def Size_def example_estargz_def example_layer_def)
  from run_reports_first_worker_error [OF three new example_Layers sched idx broken]
  obtain before ev after e' where
    split: "?sched = before @ ev # after"
    and ok: "\<forall>b \<in> set before. \<forall>x. worker ?est (?args ! 2) (?layers ! fst b) \<noteq> Inl x"
    and bad: "worker ?est (?args ! 2) (?layers ! fst ev) = Inl e'"
    and res: "run (example_registry [''aa'', ''bb'']) example_lib example_pathlib ?est ?args ?sched =
                ([], Some e')"
    by blast
  have "ev \<in> set ?sched" using split by (metis in_set_conv_decomp)
  then have "fst ev = 0 \<or> fst ev = 1" by auto
  with bad hit broken have "e' = ErrExternal ''cannot open aa''" by auto
  with res hit show ?thesis by simp
qed

end
